theory Spec2Isabelle
  imports Main
begin

section \<open>On-call schedule store of \<open>backend/main.py\<close>\<close>

subsection \<open>Data model\<close>

text \<open>
  A naive UTC \<open>datetime\<close> is represented by the number of microseconds since
  0001-01-01T00:00:00, so that Python's field-wise comparison of two datetimes is the
  order of \<open>int\<close>. Python's largest datetime is 9999-12-31T23:59:59.999999; adding
  a \<open>timedelta\<close> beyond it raises \<open>OverflowError\<close>.
\<close>

type_synonym datetime = int

definition day_us :: int where
  "day_us = 86400000000"

definition datetime_max :: datetime where
  "datetime_max = 315537897599999999"

text \<open>The table \<open>users\<close> (class \<open>User\<close>); \<open>id\<close> and \<open>created_at\<close> carry a suffix
  because both tables have columns of these names.\<close>

record User =
  id_user :: int
  email :: string
  username :: string
  hashed_password :: string
  full_name :: "string option"
  is_admin :: bool
  is_active :: bool
  created_at_user :: datetime

text \<open>The table \<open>oncall_schedules\<close> (class \<open>OnCallSchedule\<close>).\<close>

record OnCallSchedule =
  id_sched :: int
  user_id :: int
  start_date :: datetime
  end_date :: datetime
  notes_sched :: "string option"
  created_by :: "int option"
  created_at :: datetime

text \<open>The request body of \<open>POST /oncall\<close> (class \<open>OnCallScheduleCreate\<close>).\<close>

record OnCallScheduleCreate =
  user_id_in :: int
  start_date_in :: datetime
  end_date_in :: datetime
  notes_in :: "string option"

text \<open>
  The database session: the rows of both tables, and the sequence from which the database
  draws the primary key of a new \<open>oncall_schedules\<close> row. The order of a list is the order
  in which a query without \<open>order_by\<close> returns the rows; the database does not promise
  one, and the properties below that speak of which rows are stored do not depend on it.
\<close>

record db =
  users :: "User list"
  oncall_schedules :: "OnCallSchedule list"
  oncall_schedules_id_seq :: int

datatype error = HTTPException int string | OverflowError | ValueError

text \<open>\<open>query.filter(...).first()\<close>: the first row that passes the filter, or \<open>None\<close>.\<close>

definition query_first :: "('a \<Rightarrow> bool) \<Rightarrow> 'a list \<Rightarrow> 'a option" where
  "query_first P rows = (case filter P rows of [] \<Rightarrow> None | r # _ \<Rightarrow> Some r)"

subsection \<open>Operations\<close>

text \<open>
  A PostgreSQL \<open>text\<close> value cannot hold the character NUL: the driver behind the
  default database URL (line 20) refuses a string parameter that contains it and raises
  \<open>ValueError\<close> when the \<open>INSERT\<close> is sent. \<open>notes\<close> is the only string that a request
  puts into a row, and nothing validates it (lines 84--88).
\<close>

definition contains_nul :: "string option \<Rightarrow> bool" where
  "contains_nul txt = (case txt of None \<Rightarrow> False | Some str \<Rightarrow> CHR 0x00 \<in> set str)"

text \<open>
  \<open>create_oncall_schedule\<close> (lines 257--288). \<open>current_user\<close> is the row that the
  dependency \<open>get_current_admin_user\<close> has resolved before the body runs; \<open>now\<close> is the
  clock reading that the column default \<open>datetime.utcnow\<close> takes at insertion.
  \<open>db.add\<close> only registers the new object; the row is written by \<open>db.commit()\<close>
  (line 286), and when that raises nothing has been stored.
\<close>

definition create_oncall_schedule ::
  "OnCallScheduleCreate \<Rightarrow> User \<Rightarrow> datetime \<Rightarrow> db \<Rightarrow> (error + OnCallSchedule) \<times> db" where
  "create_oncall_schedule schedule current_user now d =
     (case query_first (\<lambda>u. id_user u = user_id_in schedule) (users d) of
        None \<Rightarrow> (Inl (HTTPException 404 ''User not found''), d)
      | Some user \<Rightarrow>
          (case query_first
                  (\<lambda>s. user_id s = user_id_in schedule
                      \<and> start_date s < end_date_in schedule
                      \<and> end_date s > start_date_in schedule)
                  (oncall_schedules d) of
             Some overlap \<Rightarrow>
               (Inl (HTTPException 400 ''Schedule overlaps with existing schedule''), d)
           | None \<Rightarrow>
               (let db_schedule =
                      \<lparr> id_sched = oncall_schedules_id_seq d,
                        user_id = user_id_in schedule,
                        start_date = start_date_in schedule,
                        end_date = end_date_in schedule,
                        notes_sched = notes_in schedule,
                        created_by = Some (id_user current_user),
                        created_at = now \<rparr>
                in if contains_nul (notes_sched db_schedule) then (Inl ValueError, d)
                   else
                     (Inr db_schedule,
                      d\<lparr> oncall_schedules := oncall_schedules d @ [db_schedule],
                         oncall_schedules_id_seq := oncall_schedules_id_seq d + 1 \<rparr>))))"

text \<open>
  \<open>get_current_oncall\<close> (lines 298--312); \<open>now\<close> is \<open>datetime.utcnow()\<close>. The
  relationship \<open>schedule.user\<close> is the \<open>users\<close> row with the schedule's \<open>user_id\<close>.
\<close>

definition get_current_oncall :: "datetime \<Rightarrow> db \<Rightarrow> error + (User option \<times> OnCallSchedule)" where
  "get_current_oncall now d =
     (case query_first (\<lambda>s. start_date s \<le> now \<and> end_date s \<ge> now) (oncall_schedules d) of
        None \<Rightarrow> Inl (HTTPException 404 ''No one is currently on-call'')
      | Some schedule \<Rightarrow>
          Inr (query_first (\<lambda>u. id_user u = user_id schedule) (users d), schedule))"

text \<open>
  \<open>get_today_oncall\<close> (lines 314--327). \<open>replace(hour=0, minute=0, second=0,
  microsecond=0)\<close> keeps the date and clears the time of day.
\<close>

definition today_start :: "datetime \<Rightarrow> datetime" where
  "today_start now = now - now mod day_us"

definition get_today_oncall :: "datetime \<Rightarrow> db \<Rightarrow> error + OnCallSchedule list" where
  "get_today_oncall now d =
     (if today_start now + day_us > datetime_max then Inl OverflowError
      else
        (let today_end = today_start now + day_us
         in Inr (filter (\<lambda>s. start_date s < today_end \<and> end_date s > today_start now)
                   (oncall_schedules d))))"

text \<open>
  \<open>delete_oncall_schedule\<close> (lines 329--341). \<open>db.delete(schedule)\<close> deletes by the
  primary key of the row found.
\<close>

definition delete_oncall_schedule :: "int \<Rightarrow> User \<Rightarrow> db \<Rightarrow> (error + string) \<times> db" where
  "delete_oncall_schedule schedule_id current_user d =
     (case query_first (\<lambda>s. id_sched s = schedule_id) (oncall_schedules d) of
        None \<Rightarrow> (Inl (HTTPException 404 ''Schedule not found''), d)
      | Some schedule \<Rightarrow>
          (Inr ''Schedule deleted successfully'',
           d\<lparr> oncall_schedules :=
                 filter (\<lambda>s. id_sched s \<noteq> id_sched schedule) (oncall_schedules d) \<rparr>))"

subsection \<open>Sequences of store operations\<close>

datatype store_op =
    Create OnCallScheduleCreate User datetime
  | Delete int User

fun apply_op :: "db \<Rightarrow> store_op \<Rightarrow> db" where
  "apply_op d (Create schedule current_user now) =
     snd (create_oncall_schedule schedule current_user now d)"
| "apply_op d (Delete schedule_id current_user) =
     snd (delete_oncall_schedule schedule_id current_user d)"

definition run_ops :: "store_op list \<Rightarrow> db \<Rightarrow> db" where
  "run_ops ops d = foldl apply_op d ops"

text \<open>A store without schedules, over any table of users.\<close>

definition empty_store :: "User list \<Rightarrow> db" where
  "empty_store us = \<lparr> users = us, oncall_schedules = [], oncall_schedules_id_seq = 1 \<rparr>"

subsection \<open>Predicates of the specification and constraints of the schema\<close>

text \<open>Two schedules overlap when each starts strictly before the other ends.\<close>

definition overlap :: "OnCallSchedule \<Rightarrow> OnCallSchedule \<Rightarrow> bool" where
  "overlap S1 S2 \<longleftrightarrow> start_date S1 < end_date S2 \<and> end_date S1 > start_date S2"

text \<open>The same test between a stored schedule and a request, as lines 270--272 write it.\<close>

definition conflicts :: "OnCallScheduleCreate \<Rightarrow> OnCallSchedule \<Rightarrow> bool" where
  "conflicts schedule s \<longleftrightarrow>
     user_id s = user_id_in schedule
     \<and> start_date s < end_date_in schedule
     \<and> end_date s > start_date_in schedule"

definition user_exists :: "db \<Rightarrow> int \<Rightarrow> bool" where
  "user_exists d uid \<longleftrightarrow> list_ex (\<lambda>u. id_user u = uid) (users d)"

text \<open>\<open>ForeignKey("users.id")\<close> on \<open>oncall_schedules.user_id\<close> (line 49).\<close>

definition fk_ok :: "db \<Rightarrow> bool" where
  "fk_ok d \<longleftrightarrow> list_all (\<lambda>s. user_exists d (user_id s)) (oncall_schedules d)"

text \<open>\<open>primary_key=True\<close> on \<open>oncall_schedules.id\<close> (line 48), drawn from the sequence.\<close>

definition pk_ok :: "db \<Rightarrow> bool" where
  "pk_ok d \<longleftrightarrow>
     distinct (map id_sched (oncall_schedules d))
     \<and> list_all (\<lambda>s. id_sched s < oncall_schedules_id_seq d) (oncall_schedules d)"

text \<open>The per-user invariant of the specification.\<close>

definition no_overlap :: "db \<Rightarrow> bool" where
  "no_overlap d \<longleftrightarrow>
     (\<forall>S1 \<in> set (oncall_schedules d). \<forall>S2 \<in> set (oncall_schedules d).
        user_id S1 = user_id S2 \<and> S1 \<noteq> S2 \<longrightarrow> \<not> overlap S1 S2)"

subsection \<open>Example data\<close>

text \<open>The administrator that \<open>startup\<close> inserts (lines 187--193), and a second user.\<close>

definition example_admin :: User where
  "example_admin =
     \<lparr> id_user = 1, email = ''admin@oncall.devops'', username = ''admin'',
       hashed_password = ''hash1'', full_name = Some ''System Administrator'',
       is_admin = True, is_active = True, created_at_user = 0 \<rparr>"

definition example_engineer :: User where
  "example_engineer =
     \<lparr> id_user = 2, email = ''engineer@oncall.devops'', username = ''engineer'',
       hashed_password = ''hash2'', full_name = None,
       is_admin = False, is_active = True, created_at_user = 0 \<rparr>"

text \<open>Midnight of the \<open>n\<close>-th of January 2024 (2024-01-01 has ordinal 738886).\<close>

definition jan :: "int \<Rightarrow> datetime" where
  "jan n = (738885 + (n - 1)) * 86400000000"

definition example_request :: "int \<Rightarrow> datetime \<Rightarrow> datetime \<Rightarrow> OnCallScheduleCreate" where
  "example_request uid s e =
     \<lparr> user_id_in = uid, start_date_in = s, end_date_in = e, notes_in = None \<rparr>"

text \<open>The same request with the three characters \<open>a\<close>, NUL, \<open>b\<close> as notes.\<close>

definition example_request_nul :: "int \<Rightarrow> datetime \<Rightarrow> datetime \<Rightarrow> OnCallScheduleCreate" where
  "example_request_nul uid s e =
     \<lparr> user_id_in = uid, start_date_in = s, end_date_in = e,
       notes_in = Some [CHR ''a'', CHR 0x00, CHR ''b''] \<rparr>"

definition example_row :: "int \<Rightarrow> int \<Rightarrow> datetime \<Rightarrow> datetime \<Rightarrow> OnCallSchedule" where
  "example_row i uid s e =
     \<lparr> id_sched = i, user_id = uid, start_date = s, end_date = e, notes_sched = None,
       created_by = Some 1, created_at = jan 1 \<rparr>"

text \<open>A store in which user 1 is on call from 1 January to 8 January.\<close>

definition example_store :: db where
  "example_store =
     \<lparr> users = [example_admin, example_engineer],
       oncall_schedules = [example_row 1 1 (jan 1) (jan 8)],
       oncall_schedules_id_seq = 2 \<rparr>"

text \<open>
  Five operations: user 1 from 1 to 8 January; user 1 from 5 to 10 January; user 2 from
  5 to 10 January; user 1 from 8 to 10 January; delete schedule 2.
\<close>

definition example_ops :: "store_op list" where
  "example_ops =
     [Create (example_request 1 (jan 1) (jan 8)) example_admin (jan 1),
      Create (example_request 1 (jan 5) (jan 10)) example_admin (jan 1),
      Create (example_request 2 (jan 5) (jan 10)) example_admin (jan 1),
      Create (example_request 1 (jan 8) (jan 10)) example_admin (jan 1),
      Delete 2 example_admin]"

section \<open>Properties\<close>

subsection \<open>Queries\<close>

lemma query_first_None: "query_first P rows = None \<longleftrightarrow> (\<forall>r \<in> set rows. \<not> P r)"
proof -
  have "query_first P rows = None \<longleftrightarrow> filter P rows = []"
    by (simp add: query_first_def split: list.splits)
  then show ?thesis by (simp add: filter_empty_conv)
qed

lemma query_first_Some: "query_first P rows = Some r \<Longrightarrow> r \<in> set rows \<and> P r"
proof -
  assume "query_first P rows = Some r"
  then obtain rest where "filter P rows = r # rest"
    by (auto simp: query_first_def split: list.splits)
  then have "r \<in> set (filter P rows)" by simp
  then show ?thesis by simp
qed

lemma query_first_ex: "(\<exists>r. query_first P rows = Some r) \<longleftrightarrow> (\<exists>r \<in> set rows. P r)"
proof -
  have "(\<exists>r. query_first P rows = Some r) \<longleftrightarrow> query_first P rows \<noteq> None" by auto
  then show ?thesis by (simp add: query_first_None)
qed

lemma user_exists_iff: "user_exists d uid \<longleftrightarrow> (\<exists>u \<in> set (users d). id_user u = uid)"
  by (simp add: user_exists_def list_ex_iff)

subsection \<open>The four outcomes of create\<close>

lemma create_user_missing:
  assumes "\<not> user_exists d (user_id_in schedule)"
  shows "create_oncall_schedule schedule cu now d = (Inl (HTTPException 404 ''User not found''), d)"
proof -
  have "query_first (\<lambda>u. id_user u = user_id_in schedule) (users d) = None"
    using assms by (simp add: query_first_None user_exists_iff)
  then show ?thesis by (simp add: create_oncall_schedule_def)
qed

lemma create_conflict:
  assumes "user_exists d (user_id_in schedule)"
    and "\<exists>s \<in> set (oncall_schedules d). conflicts schedule s"
  shows "create_oncall_schedule schedule cu now d =
           (Inl (HTTPException 400 ''Schedule overlaps with existing schedule''), d)"
proof -
  obtain u where u: "query_first (\<lambda>u. id_user u = user_id_in schedule) (users d) = Some u"
    using assms(1) query_first_ex [of "\<lambda>u. id_user u = user_id_in schedule" "users d"]
    by (auto simp: user_exists_iff)
  obtain s where s: "query_first (conflicts schedule) (oncall_schedules d) = Some s"
    using assms(2) query_first_ex [of "conflicts schedule" "oncall_schedules d"] by auto
  have eq: "(\<lambda>s. user_id s = user_id_in schedule \<and> start_date s < end_date_in schedule
              \<and> end_date s > start_date_in schedule) = conflicts schedule"
    by (simp add: conflicts_def fun_eq_iff)
  show ?thesis
    unfolding create_oncall_schedule_def eq using u s by simp
qed

lemma create_commit_fails:
  assumes "user_exists d (user_id_in schedule)"
    and "\<forall>s \<in> set (oncall_schedules d). \<not> conflicts schedule s"
    and "contains_nul (notes_in schedule)"
  shows "create_oncall_schedule schedule cu now d = (Inl ValueError, d)"
proof -
  obtain u where u: "query_first (\<lambda>u. id_user u = user_id_in schedule) (users d) = Some u"
    using assms(1) query_first_ex [of "\<lambda>u. id_user u = user_id_in schedule" "users d"]
    by (auto simp: user_exists_iff)
  have s: "query_first (conflicts schedule) (oncall_schedules d) = None"
    using assms(2) by (simp add: query_first_None)
  have eq: "(\<lambda>s. user_id s = user_id_in schedule \<and> start_date s < end_date_in schedule
              \<and> end_date s > start_date_in schedule) = conflicts schedule"
    by (simp add: conflicts_def fun_eq_iff)
  show ?thesis
    unfolding create_oncall_schedule_def eq using u s assms(3) by (simp add: Let_def)
qed

lemma create_accepted:
  assumes "user_exists d (user_id_in schedule)"
    and "\<forall>s \<in> set (oncall_schedules d). \<not> conflicts schedule s"
    and "\<not> contains_nul (notes_in schedule)"
  shows "create_oncall_schedule schedule cu now d =
           (Inr \<lparr> id_sched = oncall_schedules_id_seq d,
                  user_id = user_id_in schedule,
                  start_date = start_date_in schedule,
                  end_date = end_date_in schedule,
                  notes_sched = notes_in schedule,
                  created_by = Some (id_user cu),
                  created_at = now \<rparr>,
            d\<lparr> oncall_schedules := oncall_schedules d @
                  [\<lparr> id_sched = oncall_schedules_id_seq d,
                     user_id = user_id_in schedule,
                     start_date = start_date_in schedule,
                     end_date = end_date_in schedule,
                     notes_sched = notes_in schedule,
                     created_by = Some (id_user cu),
                     created_at = now \<rparr>],
               oncall_schedules_id_seq := oncall_schedules_id_seq d + 1 \<rparr>)"
proof -
  obtain u where u: "query_first (\<lambda>u. id_user u = user_id_in schedule) (users d) = Some u"
    using assms(1) query_first_ex [of "\<lambda>u. id_user u = user_id_in schedule" "users d"]
    by (auto simp: user_exists_iff)
  have s: "query_first (conflicts schedule) (oncall_schedules d) = None"
    using assms(2) by (simp add: query_first_None)
  have eq: "(\<lambda>s. user_id s = user_id_in schedule \<and> start_date s < end_date_in schedule
              \<and> end_date s > start_date_in schedule) = conflicts schedule"
    by (simp add: conflicts_def fun_eq_iff)
  show ?thesis
    unfolding create_oncall_schedule_def eq using u s assms(3) by (simp add: Let_def)
qed

lemma create_snd_cases:
  "snd (create_oncall_schedule schedule cu now d) = d
   \<or> (user_exists d (user_id_in schedule)
      \<and> (\<forall>s \<in> set (oncall_schedules d). \<not> conflicts schedule s)
      \<and> snd (create_oncall_schedule schedule cu now d) =
          d\<lparr> oncall_schedules := oncall_schedules d @
                [\<lparr> id_sched = oncall_schedules_id_seq d,
                   user_id = user_id_in schedule,
                   start_date = start_date_in schedule,
                   end_date = end_date_in schedule,
                   notes_sched = notes_in schedule,
                   created_by = Some (id_user cu),
                   created_at = now \<rparr>],
             oncall_schedules_id_seq := oncall_schedules_id_seq d + 1 \<rparr>)"
proof (cases "user_exists d (user_id_in schedule)")
  case False
  then show ?thesis by (simp add: create_user_missing)
next
  case True
  show ?thesis
  proof (cases "\<exists>s \<in> set (oncall_schedules d). conflicts schedule s")
    case True
    with \<open>user_exists d (user_id_in schedule)\<close> show ?thesis
      by (simp add: create_conflict)
  next
    case False
    then have nc: "\<forall>s \<in> set (oncall_schedules d). \<not> conflicts schedule s" by simp
    show ?thesis
    proof (cases "contains_nul (notes_in schedule)")
      case True
      with \<open>user_exists d (user_id_in schedule)\<close> nc show ?thesis
        by (simp add: create_commit_fails)
    next
      case False
      with \<open>user_exists d (user_id_in schedule)\<close> nc show ?thesis
        by (simp add: create_accepted)
    qed
  qed
qed

subsection \<open>The two outcomes of delete\<close>

lemma delete_missing:
  assumes "\<forall>s \<in> set (oncall_schedules d). id_sched s \<noteq> sid"
  shows "delete_oncall_schedule sid cu d = (Inl (HTTPException 404 ''Schedule not found''), d)"
proof -
  have "query_first (\<lambda>s. id_sched s = sid) (oncall_schedules d) = None"
    using assms by (simp add: query_first_None)
  then show ?thesis by (simp add: delete_oncall_schedule_def)
qed

lemma delete_found:
  assumes "\<exists>s \<in> set (oncall_schedules d). id_sched s = sid"
  shows "delete_oncall_schedule sid cu d =
           (Inr ''Schedule deleted successfully'',
            d\<lparr> oncall_schedules := filter (\<lambda>s. id_sched s \<noteq> sid) (oncall_schedules d) \<rparr>)"
proof -
  obtain r where r: "query_first (\<lambda>s. id_sched s = sid) (oncall_schedules d) = Some r"
    using assms query_first_ex [of "\<lambda>s. id_sched s = sid" "oncall_schedules d"] by auto
  then have "id_sched r = sid" using query_first_Some by fastforce
  with r show ?thesis by (simp add: delete_oncall_schedule_def)
qed

lemma delete_snd_cases:
  "snd (delete_oncall_schedule sid cu d) = d
   \<or> snd (delete_oncall_schedule sid cu d) =
       d\<lparr> oncall_schedules := filter (\<lambda>s. id_sched s \<noteq> sid) (oncall_schedules d) \<rparr>"
proof (cases "\<exists>s \<in> set (oncall_schedules d). id_sched s = sid")
  case True
  then show ?thesis by (simp add: delete_found)
next
  case False
  then have "\<forall>s \<in> set (oncall_schedules d). id_sched s \<noteq> sid" by simp
  then show ?thesis by (simp add: delete_missing)
qed

subsection \<open>What every operation preserves\<close>

lemma no_overlap_create: "no_overlap d \<Longrightarrow> no_overlap (snd (create_oncall_schedule schedule cu now d))"
  using create_snd_cases [of schedule cu now d]
  by (auto simp: no_overlap_def overlap_def conflicts_def)

lemma no_overlap_delete: "no_overlap d \<Longrightarrow> no_overlap (snd (delete_oncall_schedule sid cu d))"
  using delete_snd_cases [of sid cu d]
  by (auto simp: no_overlap_def)

lemma no_overlap_apply_op: "no_overlap d \<Longrightarrow> no_overlap (apply_op d x)"
  by (cases x) (simp_all add: no_overlap_create no_overlap_delete)

lemma no_overlap_run_ops: "no_overlap d \<Longrightarrow> no_overlap (run_ops ops d)"
  unfolding run_ops_def
  by (induction ops arbitrary: d) (simp_all add: no_overlap_apply_op)

lemma no_overlap_empty_store: "no_overlap (empty_store us)"
  by (simp add: no_overlap_def empty_store_def)

lemma fk_ok_create:
  assumes "fk_ok d"
  shows "fk_ok (snd (create_oncall_schedule schedule cu now d))"
  using create_snd_cases [of schedule cu now d]
proof (elim disjE conjE)
  assume "snd (create_oncall_schedule schedule cu now d) = d"
  with assms show ?thesis by simp
next
  assume ue: "user_exists d (user_id_in schedule)"
    and eq: "snd (create_oncall_schedule schedule cu now d) =
          d\<lparr> oncall_schedules := oncall_schedules d @
                [\<lparr> id_sched = oncall_schedules_id_seq d,
                   user_id = user_id_in schedule,
                   start_date = start_date_in schedule,
                   end_date = end_date_in schedule,
                   notes_sched = notes_in schedule,
                   created_by = Some (id_user cu),
                   created_at = now \<rparr>],
             oncall_schedules_id_seq := oncall_schedules_id_seq d + 1 \<rparr>"
  show ?thesis
    unfolding eq using assms ue by (simp add: fk_ok_def user_exists_def)
qed

lemma fk_ok_delete: "fk_ok d \<Longrightarrow> fk_ok (snd (delete_oncall_schedule sid cu d))"
  using delete_snd_cases [of sid cu d]
  by (auto simp: fk_ok_def list_all_iff user_exists_iff)

lemma pk_ok_create: "pk_ok d \<Longrightarrow> pk_ok (snd (create_oncall_schedule schedule cu now d))"
  using create_snd_cases [of schedule cu now d]
  by (fastforce simp: pk_ok_def list_all_iff)

lemma pk_ok_delete: "pk_ok d \<Longrightarrow> pk_ok (snd (delete_oncall_schedule sid cu d))"
  using delete_snd_cases [of sid cu d]
  by (auto simp: pk_ok_def list_all_iff distinct_map_filter)

lemma constraints_apply_op: "fk_ok d \<and> pk_ok d \<Longrightarrow> fk_ok (apply_op d x) \<and> pk_ok (apply_op d x)"
  by (cases x) (simp_all add: fk_ok_create fk_ok_delete pk_ok_create pk_ok_delete)

lemma constraints_run_ops: "fk_ok d \<and> pk_ok d \<Longrightarrow> fk_ok (run_ops ops d) \<and> pk_ok (run_ops ops d)"
  unfolding run_ops_def
proof (induction ops arbitrary: d)
  case Nil
  then show ?case by simp
next
  case (Cons x ops)
  from Cons.prems have "fk_ok (apply_op d x) \<and> pk_ok (apply_op d x)"
    by (rule constraints_apply_op)
  then show ?case using Cons.IH by simp
qed

lemma constraints_reachable:
  "fk_ok (run_ops ops (empty_store us)) \<and> pk_ok (run_ops ops (empty_store us))"
  by (rule constraints_run_ops) (simp add: fk_ok_def pk_ok_def empty_store_def)

lemma filter_out_key_length:
  "distinct (map f xs) \<Longrightarrow> \<exists>x \<in> set xs. f x = k \<Longrightarrow>
     length (filter (\<lambda>x. f x \<noteq> k) xs) + 1 = length xs"
proof (induction xs)
  case Nil
  then show ?case by simp
next
  case (Cons a xs)
  show ?case
  proof (cases "f a = k")
    case True
    from Cons.prems(1) have "f a \<notin> f ` set xs" by simp
    with True have "\<forall>x \<in> set xs. f x \<noteq> k" by blast
    then have "filter (\<lambda>x. f x \<noteq> k) xs = xs" by (simp add: filter_id_conv)
    with True show ?thesis by simp
  next
    case False
    with Cons show ?thesis by auto
  qed
qed

lemma today_start_midnight:
  "today_start now mod day_us = 0 \<and> today_start now \<le> now \<and> now < today_start now + day_us"
  by (simp add: today_start_def day_us_def)

subsection \<open>Evaluation of the example\<close>

lemma example_ops_result:
  "oncall_schedules (run_ops example_ops (empty_store [example_admin, example_engineer])) =
     [example_row 1 1 (jan 1) (jan 8), example_row 3 1 (jan 8) (jan 10)]"
  by (simp add: run_ops_def example_ops_def empty_store_def create_oncall_schedule_def
      delete_oncall_schedule_def query_first_def example_request_def example_row_def
      example_admin_def example_engineer_def jan_def Let_def contains_nul_def)

section \<open>The claims\<close>

text \<open>
  C1. Starting from a store without schedules and running any sequence of create and
  delete operations, two distinct stored schedules of the same user never overlap:
  for such \<open>S1\<close> and \<open>S2\<close> it is not the case that \<open>S1\<close> starts before \<open>S2\<close> ends
  and ends after \<open>S2\<close> starts.
\<close>

theorem C1_no_overlap_after_any_operations:
  assumes "S1 \<in> set (oncall_schedules (run_ops ops (empty_store us)))"
    and "S2 \<in> set (oncall_schedules (run_ops ops (empty_store us)))"
    and "user_id S1 = user_id S2"
    and "S1 \<noteq> S2"
  shows "\<not> (start_date S1 < end_date S2 \<and> end_date S1 > start_date S2)"
proof -
  have "no_overlap (run_ops ops (empty_store us))"
    by (rule no_overlap_run_ops) (rule no_overlap_empty_store)
  with assms have "\<not> overlap S1 S2"
    unfolding no_overlap_def by blast
  then show ?thesis by (simp add: overlap_def)
qed

theorem C1_no_overlap_witness:
  "example_row 1 1 (jan 1) (jan 8)
     \<in> set (oncall_schedules (run_ops example_ops (empty_store [example_admin, example_engineer])))
   \<and> example_row 3 1 (jan 8) (jan 10)
     \<in> set (oncall_schedules (run_ops example_ops (empty_store [example_admin, example_engineer])))
   \<and> user_id (example_row 1 1 (jan 1) (jan 8)) = user_id (example_row 3 1 (jan 8) (jan 10))
   \<and> example_row 1 1 (jan 1) (jan 8) \<noteq> example_row 3 1 (jan 8) (jan 10)
   \<and> \<not> (start_date (example_row 1 1 (jan 1) (jan 8)) < end_date (example_row 3 1 (jan 8) (jan 10))
        \<and> end_date (example_row 1 1 (jan 1) (jan 8)) > start_date (example_row 3 1 (jan 8) (jan 10)))"
proof -
  have m1: "example_row 1 1 (jan 1) (jan 8)
      \<in> set (oncall_schedules (run_ops example_ops (empty_store [example_admin, example_engineer])))"
    by (simp add: example_ops_result)
  have m2: "example_row 3 1 (jan 8) (jan 10)
      \<in> set (oncall_schedules (run_ops example_ops (empty_store [example_admin, example_engineer])))"
    by (simp add: example_ops_result)
  have u: "user_id (example_row 1 1 (jan 1) (jan 8)) = user_id (example_row 3 1 (jan 8) (jan 10))"
    by (simp add: example_row_def)
  have ne: "example_row 1 1 (jan 1) (jan 8) \<noteq> example_row 3 1 (jan 8) (jan 10)"
    by (simp add: example_row_def)
  from C1_no_overlap_after_any_operations [OF m1 m2 u ne] m1 m2 u ne
  show ?thesis by blast
qed

text \<open>
  C2. In a store that satisfies the foreign key of \<open>oncall_schedules.user_id\<close>, a create
  request whose interval overlaps a stored schedule of the same user fails with HTTP 400
  "Schedule overlaps with existing schedule", and the store is returned as it was.
\<close>

theorem C2_create_overlap_is_rejected:
  assumes "fk_ok d"
    and "s \<in> set (oncall_schedules d)"
    and "user_id s = user_id_in schedule"
    and "start_date s < end_date_in schedule"
    and "end_date s > start_date_in schedule"
  shows "create_oncall_schedule schedule cu now d =
           (Inl (HTTPException 400 ''Schedule overlaps with existing schedule''), d)"
proof -
  from assms(1,2) have "user_exists d (user_id s)"
    by (simp add: fk_ok_def list_all_iff)
  with assms(3) have ue: "user_exists d (user_id_in schedule)" by simp
  from assms(2-5) have "\<exists>s \<in> set (oncall_schedules d). conflicts schedule s"
    unfolding conflicts_def by blast
  with ue show ?thesis by (rule create_conflict)
qed

theorem C2_create_overlap_witness:
  "fk_ok example_store
   \<and> example_row 1 1 (jan 1) (jan 8) \<in> set (oncall_schedules example_store)
   \<and> user_id (example_row 1 1 (jan 1) (jan 8)) = user_id_in (example_request 1 (jan 5) (jan 10))
   \<and> start_date (example_row 1 1 (jan 1) (jan 8)) < end_date_in (example_request 1 (jan 5) (jan 10))
   \<and> end_date (example_row 1 1 (jan 1) (jan 8)) > start_date_in (example_request 1 (jan 5) (jan 10))
   \<and> create_oncall_schedule (example_request 1 (jan 5) (jan 10)) example_admin (jan 4) example_store =
       (Inl (HTTPException 400 ''Schedule overlaps with existing schedule''), example_store)"
proof -
  have h1: "fk_ok example_store"
    by (simp add: fk_ok_def user_exists_def example_store_def example_row_def
        example_admin_def example_engineer_def)
  have h2: "example_row 1 1 (jan 1) (jan 8) \<in> set (oncall_schedules example_store)"
    by (simp add: example_store_def)
  have h3: "user_id (example_row 1 1 (jan 1) (jan 8)) = user_id_in (example_request 1 (jan 5) (jan 10))"
    by (simp add: example_row_def example_request_def)
  have h4: "start_date (example_row 1 1 (jan 1) (jan 8)) < end_date_in (example_request 1 (jan 5) (jan 10))"
    by (simp add: example_row_def example_request_def jan_def)
  have h5: "end_date (example_row 1 1 (jan 1) (jan 8)) > start_date_in (example_request 1 (jan 5) (jan 10))"
    by (simp add: example_row_def example_request_def jan_def)
  from C2_create_overlap_is_rejected [OF h1 h2 h3 h4 h5, of example_admin "jan 4"] h1 h2 h3 h4 h5
  show ?thesis by blast
qed

text \<open>
  C3. \<open>get_current_oncall\<close> at clock reading \<open>t\<close> returns a schedule if and only if some
  stored schedule has \<open>start_date \<le> t \<le> end_date\<close>; the schedule returned is a stored
  one with that property; when there is none the result is HTTP 404
  "No one is currently on-call".
\<close>

theorem C3_current_oncall_iff_some_schedule_contains_now:
  "((\<exists>u S. get_current_oncall t d = Inr (u, S))
      \<longleftrightarrow> (\<exists>S \<in> set (oncall_schedules d). start_date S \<le> t \<and> t \<le> end_date S))
   \<and> (\<forall>u S. get_current_oncall t d = Inr (u, S)
         \<longrightarrow> S \<in> set (oncall_schedules d) \<and> start_date S \<le> t \<and> t \<le> end_date S)
   \<and> ((\<forall>S \<in> set (oncall_schedules d). \<not> (start_date S \<le> t \<and> t \<le> end_date S))
         \<longrightarrow> get_current_oncall t d = Inl (HTTPException 404 ''No one is currently on-call''))"
proof (cases "query_first (\<lambda>s. start_date s \<le> t \<and> end_date s \<ge> t) (oncall_schedules d)")
  case None
  then have none: "\<forall>S \<in> set (oncall_schedules d). \<not> (start_date S \<le> t \<and> t \<le> end_date S)"
    by (simp add: query_first_None)
  have "get_current_oncall t d = Inl (HTTPException 404 ''No one is currently on-call'')"
    using None by (simp add: get_current_oncall_def)
  with none show ?thesis by auto
next
  case (Some r)
  then have r: "r \<in> set (oncall_schedules d) \<and> start_date r \<le> t \<and> t \<le> end_date r"
    using query_first_Some [of "\<lambda>s. start_date s \<le> t \<and> end_date s \<ge> t" "oncall_schedules d" r]
    by simp
  have "get_current_oncall t d =
          Inr (query_first (\<lambda>u. id_user u = user_id r) (users d), r)"
    using Some by (simp add: get_current_oncall_def)
  with r show ?thesis by auto
qed

theorem C3_current_oncall_witness:
  "(\<exists>S \<in> set (oncall_schedules example_store). start_date S \<le> jan 3 \<and> jan 3 \<le> end_date S)
   \<and> (\<exists>u S. get_current_oncall (jan 3) example_store = Inr (u, S))
   \<and> \<not> (\<exists>S \<in> set (oncall_schedules example_store). start_date S \<le> jan 9 \<and> jan 9 \<le> end_date S)
   \<and> get_current_oncall (jan 9) example_store =
       Inl (HTTPException 404 ''No one is currently on-call'')"
proof -
  have h1: "\<exists>S \<in> set (oncall_schedules example_store). start_date S \<le> jan 3 \<and> jan 3 \<le> end_date S"
    by (simp add: example_store_def example_row_def jan_def)
  have h2: "\<forall>S \<in> set (oncall_schedules example_store). \<not> (start_date S \<le> jan 9 \<and> jan 9 \<le> end_date S)"
    by (simp add: example_store_def example_row_def jan_def)
  from C3_current_oncall_iff_some_schedule_contains_now [of "jan 3" example_store]
    C3_current_oncall_iff_some_schedule_contains_now [of "jan 9" example_store] h1 h2
  show ?thesis by blast
qed

text \<open>
  C4 (as the specification states it: a create request with \<open>end_date \<le> start_date\<close> is
  rejected). The code does not compare the two dates: in a store where user 1 exists and
  has no schedule, the request from 8 January back to 5 January is stored.
\<close>

theorem C4_reversed_interval_is_stored:
  "end_date_in (example_request 1 (jan 8) (jan 5)) \<le> start_date_in (example_request 1 (jan 8) (jan 5))
   \<and> create_oncall_schedule (example_request 1 (jan 8) (jan 5)) example_admin (jan 1)
         (empty_store [example_admin, example_engineer]) =
       (Inr (example_row 1 1 (jan 8) (jan 5)),
        \<lparr> users = [example_admin, example_engineer],
          oncall_schedules = [example_row 1 1 (jan 8) (jan 5)],
          oncall_schedules_id_seq = 2 \<rparr>)"
  by (simp add: create_oncall_schedule_def query_first_def empty_store_def example_request_def
      example_row_def example_admin_def example_engineer_def jan_def Let_def contains_nul_def)

text \<open>
  C4 (amended). A create request with \<open>end_date \<le> start_date\<close> goes through the same two
  checks as any other: it fails with HTTP 404 when its user does not exist, with HTTP 400
  when some stored schedule of that user has \<open>start_date < end_date\<close> of the request and
  \<open>end_date > start_date\<close> of the request, and otherwise, when its notes hold no NUL
  character, the schedule is stored with the dates as given.
\<close>

theorem C4_end_not_after_start_outcomes:
  assumes "end_date_in schedule \<le> start_date_in schedule"
  shows
    "(if \<not> (\<exists>u \<in> set (users d). id_user u = user_id_in schedule)
      then create_oncall_schedule schedule cu now d =
             (Inl (HTTPException 404 ''User not found''), d)
      else if \<exists>s \<in> set (oncall_schedules d).
                user_id s = user_id_in schedule
                \<and> start_date s < end_date_in schedule \<and> end_date s > start_date_in schedule
      then create_oncall_schedule schedule cu now d =
             (Inl (HTTPException 400 ''Schedule overlaps with existing schedule''), d)
      else \<not> contains_nul (notes_in schedule) \<longrightarrow>
           (\<exists>row. create_oncall_schedule schedule cu now d =
             (Inr row,
              d\<lparr> oncall_schedules := oncall_schedules d @ [row],
                 oncall_schedules_id_seq := oncall_schedules_id_seq d + 1 \<rparr>)
           \<and> user_id row = user_id_in schedule
           \<and> start_date row = start_date_in schedule
           \<and> end_date row = end_date_in schedule))"
proof (cases "user_exists d (user_id_in schedule)")
  case False
  then show ?thesis
    using create_user_missing [of d schedule cu now] by (simp add: user_exists_iff)
next
  case True
  show ?thesis
  proof (cases "\<exists>s \<in> set (oncall_schedules d). conflicts schedule s")
    case True
    with \<open>user_exists d (user_id_in schedule)\<close> show ?thesis
      using create_conflict [of d schedule cu now]
      by (simp add: user_exists_iff conflicts_def)
  next
    case False
    then have nc: "\<forall>s \<in> set (oncall_schedules d). \<not> conflicts schedule s" by simp
    from False have nex: "\<not> (\<exists>s \<in> set (oncall_schedules d).
                user_id s = user_id_in schedule
                \<and> start_date s < end_date_in schedule \<and> end_date s > start_date_in schedule)"
      unfolding conflicts_def .
    from True have ue: "\<exists>u \<in> set (users d). id_user u = user_id_in schedule"
      by (simp add: user_exists_iff)
    have acc: "\<not> contains_nul (notes_in schedule) \<longrightarrow>
           (\<exists>row. create_oncall_schedule schedule cu now d =
             (Inr row,
              d\<lparr> oncall_schedules := oncall_schedules d @ [row],
                 oncall_schedules_id_seq := oncall_schedules_id_seq d + 1 \<rparr>)
           \<and> user_id row = user_id_in schedule
           \<and> start_date row = start_date_in schedule
           \<and> end_date row = end_date_in schedule)"
    proof
      assume "\<not> contains_nul (notes_in schedule)"
      from create_accepted [OF True nc this, of cu now] show "\<exists>row.
          create_oncall_schedule schedule cu now d =
             (Inr row,
              d\<lparr> oncall_schedules := oncall_schedules d @ [row],
                 oncall_schedules_id_seq := oncall_schedules_id_seq d + 1 \<rparr>)
           \<and> user_id row = user_id_in schedule
           \<and> start_date row = start_date_in schedule
           \<and> end_date row = end_date_in schedule"
        by simp
    qed
    from ue nex acc show ?thesis by (simp only: if_True if_False simp_thms)
  qed
qed

theorem C4_end_not_after_start_witness:
  "end_date_in (example_request 1 (jan 9) (jan 9)) \<le> start_date_in (example_request 1 (jan 9) (jan 9))
   \<and> \<not> contains_nul (notes_in (example_request 1 (jan 9) (jan 9)))
   \<and> (\<exists>row. create_oncall_schedule (example_request 1 (jan 9) (jan 9)) example_admin (jan 1)
               example_store =
             (Inr row,
              example_store\<lparr> oncall_schedules := oncall_schedules example_store @ [row],
                 oncall_schedules_id_seq := oncall_schedules_id_seq example_store + 1 \<rparr>)
           \<and> user_id row = 1 \<and> start_date row = jan 9 \<and> end_date row = jan 9)
   \<and> end_date_in (example_request 1 (jan 4) (jan 3)) \<le> start_date_in (example_request 1 (jan 4) (jan 3))
   \<and> create_oncall_schedule (example_request 1 (jan 4) (jan 3)) example_admin (jan 1) example_store =
       (Inl (HTTPException 400 ''Schedule overlaps with existing schedule''), example_store)"
proof -
  have h1: "end_date_in (example_request 1 (jan 9) (jan 9)) \<le> start_date_in (example_request 1 (jan 9) (jan 9))"
    by (simp add: example_request_def)
  have n1: "\<not> contains_nul (notes_in (example_request 1 (jan 9) (jan 9)))"
    by (simp add: example_request_def contains_nul_def)
  have h2: "end_date_in (example_request 1 (jan 4) (jan 3)) \<le> start_date_in (example_request 1 (jan 4) (jan 3))"
    by (simp add: example_request_def jan_def)
  from C4_end_not_after_start_outcomes [OF h1, of example_store example_admin "jan 1"] n1
  have a: "\<exists>row. create_oncall_schedule (example_request 1 (jan 9) (jan 9)) example_admin (jan 1)
               example_store =
             (Inr row,
              example_store\<lparr> oncall_schedules := oncall_schedules example_store @ [row],
                 oncall_schedules_id_seq := oncall_schedules_id_seq example_store + 1 \<rparr>)
           \<and> user_id row = 1 \<and> start_date row = jan 9 \<and> end_date row = jan 9"
    by (simp add: example_store_def example_request_def example_row_def example_admin_def
        example_engineer_def jan_def)
  from C4_end_not_after_start_outcomes [OF h2, of example_store example_admin "jan 1"]
  have b: "create_oncall_schedule (example_request 1 (jan 4) (jan 3)) example_admin (jan 1) example_store =
       (Inl (HTTPException 400 ''Schedule overlaps with existing schedule''), example_store)"
    by (simp add: example_store_def example_request_def example_row_def example_admin_def
        example_engineer_def jan_def)
  from h1 n1 a h2 b show ?thesis by blast
qed

text \<open>
  C5. For a clock reading \<open>now\<close> at least one day before the largest datetime,
  \<open>get_today_oncall\<close> returns exactly the stored schedules \<open>S\<close> with
  \<open>start_date S < range_end\<close> and \<open>end_date S > range_start\<close>, in storage order, where
  \<open>range_start\<close> is the midnight at or before \<open>now\<close> and \<open>range_end\<close> is one day later.
\<close>

theorem C5_today_returns_schedules_meeting_the_day:
  assumes "now \<le> datetime_max - day_us"
  shows "today_start now mod day_us = 0
         \<and> today_start now \<le> now
         \<and> now < today_start now + day_us
         \<and> get_today_oncall now d =
             Inr (filter (\<lambda>S. start_date S < today_start now + day_us
                            \<and> end_date S > today_start now)
                    (oncall_schedules d))
         \<and> (\<exists>rows. get_today_oncall now d = Inr rows
              \<and> set rows = {S \<in> set (oncall_schedules d).
                              start_date S < today_start now + day_us
                              \<and> end_date S > today_start now})"
proof -
  have mid: "today_start now mod day_us = 0 \<and> today_start now \<le> now
             \<and> now < today_start now + day_us"
    by (rule today_start_midnight)
  with assms have "\<not> today_start now + day_us > datetime_max" by simp
  then have res: "get_today_oncall now d =
             Inr (filter (\<lambda>S. start_date S < today_start now + day_us
                            \<and> end_date S > today_start now)
                    (oncall_schedules d))"
    by (simp add: get_today_oncall_def Let_def)
  then have "\<exists>rows. get_today_oncall now d = Inr rows
              \<and> set rows = {S \<in> set (oncall_schedules d).
                              start_date S < today_start now + day_us
                              \<and> end_date S > today_start now}"
    by simp
  with mid res show ?thesis by blast
qed

theorem C5_today_witness:
  "jan 8 + 43200000000 \<le> datetime_max - day_us
   \<and> today_start (jan 8 + 43200000000) = jan 8
   \<and> get_today_oncall (jan 8 + 43200000000)
        (example_store\<lparr> oncall_schedules :=
           [example_row 1 1 (jan 1) (jan 8), example_row 2 1 (jan 8) (jan 9),
            example_row 3 1 (jan 9) (jan 12), example_row 4 2 (jan 7) (jan 10)], oncall_schedules_id_seq := 5 \<rparr>) =
       Inr [example_row 2 1 (jan 8) (jan 9), example_row 4 2 (jan 7) (jan 10)]"
proof -
  have h: "jan 8 + 43200000000 \<le> datetime_max - day_us"
    by (simp add: jan_def datetime_max_def day_us_def)
  have t: "today_start (jan 8 + 43200000000) = jan 8"
    by (simp add: today_start_def jan_def day_us_def)
  from C5_today_returns_schedules_meeting_the_day [OF h, of
      "example_store\<lparr> oncall_schedules :=
           [example_row 1 1 (jan 1) (jan 8), example_row 2 1 (jan 8) (jan 9),
            example_row 3 1 (jan 9) (jan 12), example_row 4 2 (jan 7) (jan 10)], oncall_schedules_id_seq := 5 \<rparr>"]
  have "get_today_oncall (jan 8 + 43200000000)
        (example_store\<lparr> oncall_schedules :=
           [example_row 1 1 (jan 1) (jan 8), example_row 2 1 (jan 8) (jan 9),
            example_row 3 1 (jan 9) (jan 12), example_row 4 2 (jan 7) (jan 10)], oncall_schedules_id_seq := 5 \<rparr>) =
       Inr [example_row 2 1 (jan 8) (jan 9), example_row 4 2 (jan 7) (jan 10)]"
    unfolding t by (simp add: example_row_def jan_def day_us_def)
  with h t show ?thesis by blast
qed

text \<open>
  C6 (as the specification states it: a create request for an existing user that overlaps
  a schedule of another user and none of its own user succeeds). In the example store
  user 1 is on call from 1 to 8 January; the request for user 2 from 5 to 10 January
  whose notes hold a NUL character meets every condition of the claim, and the commit
  raises \<open>ValueError\<close>: nothing is stored.
\<close>

theorem C6_cross_user_overlap_with_nul_notes_fails:
  "(\<exists>u \<in> set (users example_store). id_user u = user_id_in (example_request_nul 2 (jan 5) (jan 10)))
   \<and> example_row 1 1 (jan 1) (jan 8) \<in> set (oncall_schedules example_store)
   \<and> user_id (example_row 1 1 (jan 1) (jan 8)) \<noteq> user_id_in (example_request_nul 2 (jan 5) (jan 10))
   \<and> start_date (example_row 1 1 (jan 1) (jan 8)) < end_date_in (example_request_nul 2 (jan 5) (jan 10))
   \<and> end_date (example_row 1 1 (jan 1) (jan 8)) > start_date_in (example_request_nul 2 (jan 5) (jan 10))
   \<and> \<not> (\<exists>s' \<in> set (oncall_schedules example_store).
           user_id s' = user_id_in (example_request_nul 2 (jan 5) (jan 10))
           \<and> start_date s' < end_date_in (example_request_nul 2 (jan 5) (jan 10))
           \<and> end_date s' > start_date_in (example_request_nul 2 (jan 5) (jan 10)))
   \<and> create_oncall_schedule (example_request_nul 2 (jan 5) (jan 10)) example_admin (jan 1)
        example_store = (Inl ValueError, example_store)"
  by (simp add: create_oncall_schedule_def query_first_def contains_nul_def Let_def
      example_store_def example_request_nul_def example_row_def example_admin_def
      example_engineer_def jan_def)

text \<open>
  C6 (amended). A create request for an existing user whose interval overlaps a stored
  schedule of another user and no stored schedule of its own user, and whose notes hold
  no NUL character, succeeds: the new row is appended to the store with the request's
  user, dates and notes.
\<close>

theorem C6_cross_user_overlap_is_accepted:
  assumes "\<exists>u \<in> set (users d). id_user u = user_id_in schedule"
    and "s \<in> set (oncall_schedules d)"
    and "user_id s \<noteq> user_id_in schedule"
    and "start_date s < end_date_in schedule"
    and "end_date s > start_date_in schedule"
    and "\<forall>s' \<in> set (oncall_schedules d).
           user_id s' = user_id_in schedule \<longrightarrow>
             \<not> (start_date s' < end_date_in schedule \<and> end_date s' > start_date_in schedule)"
    and "\<not> contains_nul (notes_in schedule)"
  shows "\<exists>row. create_oncall_schedule schedule cu now d =
             (Inr row,
              d\<lparr> oncall_schedules := oncall_schedules d @ [row],
                 oncall_schedules_id_seq := oncall_schedules_id_seq d + 1 \<rparr>)
           \<and> user_id row = user_id_in schedule
           \<and> start_date row = start_date_in schedule
           \<and> end_date row = end_date_in schedule
           \<and> notes_sched row = notes_in schedule"
proof -
  from assms(1) have ue: "user_exists d (user_id_in schedule)"
    by (simp add: user_exists_iff)
  from assms(6) have nc: "\<forall>s' \<in> set (oncall_schedules d). \<not> conflicts schedule s'"
    by (simp add: conflicts_def)
  from create_accepted [OF ue nc assms(7), of cu now] show ?thesis by simp
qed

theorem C6_cross_user_overlap_witness:
  "(\<exists>u \<in> set (users example_store). id_user u = user_id_in (example_request 2 (jan 5) (jan 10)))
   \<and> example_row 1 1 (jan 1) (jan 8) \<in> set (oncall_schedules example_store)
   \<and> user_id (example_row 1 1 (jan 1) (jan 8)) \<noteq> user_id_in (example_request 2 (jan 5) (jan 10))
   \<and> start_date (example_row 1 1 (jan 1) (jan 8)) < end_date_in (example_request 2 (jan 5) (jan 10))
   \<and> end_date (example_row 1 1 (jan 1) (jan 8)) > start_date_in (example_request 2 (jan 5) (jan 10))
   \<and> \<not> contains_nul (notes_in (example_request 2 (jan 5) (jan 10)))
   \<and> (\<exists>row. create_oncall_schedule (example_request 2 (jan 5) (jan 10)) example_admin (jan 1)
               example_store =
             (Inr row,
              example_store\<lparr> oncall_schedules := oncall_schedules example_store @ [row],
                 oncall_schedules_id_seq := oncall_schedules_id_seq example_store + 1 \<rparr>)
           \<and> user_id row = 2 \<and> start_date row = jan 5 \<and> end_date row = jan 10)"
proof -
  have h1: "\<exists>u \<in> set (users example_store). id_user u = user_id_in (example_request 2 (jan 5) (jan 10))"
    by (simp add: example_store_def example_request_def example_admin_def example_engineer_def)
  have h2: "example_row 1 1 (jan 1) (jan 8) \<in> set (oncall_schedules example_store)"
    by (simp add: example_store_def)
  have h3: "user_id (example_row 1 1 (jan 1) (jan 8)) \<noteq> user_id_in (example_request 2 (jan 5) (jan 10))"
    by (simp add: example_row_def example_request_def)
  have h4: "start_date (example_row 1 1 (jan 1) (jan 8)) < end_date_in (example_request 2 (jan 5) (jan 10))"
    by (simp add: example_row_def example_request_def jan_def)
  have h5: "end_date (example_row 1 1 (jan 1) (jan 8)) > start_date_in (example_request 2 (jan 5) (jan 10))"
    by (simp add: example_row_def example_request_def jan_def)
  have h6: "\<forall>s' \<in> set (oncall_schedules example_store).
           user_id s' = user_id_in (example_request 2 (jan 5) (jan 10)) \<longrightarrow>
             \<not> (start_date s' < end_date_in (example_request 2 (jan 5) (jan 10))
                \<and> end_date s' > start_date_in (example_request 2 (jan 5) (jan 10)))"
    by (simp add: example_store_def example_row_def example_request_def)
  have h7: "\<not> contains_nul (notes_in (example_request 2 (jan 5) (jan 10)))"
    by (simp add: example_request_def contains_nul_def)
  from C6_cross_user_overlap_is_accepted [OF h1 h2 h3 h4 h5 h6 h7, of example_admin "jan 1"]
  have "\<exists>row. create_oncall_schedule (example_request 2 (jan 5) (jan 10)) example_admin (jan 1)
               example_store =
             (Inr row,
              example_store\<lparr> oncall_schedules := oncall_schedules example_store @ [row],
                 oncall_schedules_id_seq := oncall_schedules_id_seq example_store + 1 \<rparr>)
           \<and> user_id row = 2 \<and> start_date row = jan 5 \<and> end_date row = jan 10"
    by (auto simp: example_request_def)
  with h1 h2 h3 h4 h5 h7 show ?thesis by blast
qed

text \<open>
  C7. A create request whose \<open>user_id\<close> is the id of no row of \<open>users\<close> fails with HTTP 404
  "User not found", whatever the schedules in the store and whatever its dates, and the
  store is returned as it was.
\<close>

theorem C7_create_unknown_user_is_rejected_first:
  assumes "\<forall>u \<in> set (users d). id_user u \<noteq> user_id_in schedule"
  shows "create_oncall_schedule schedule cu now d =
           (Inl (HTTPException 404 ''User not found''), d)"
proof -
  from assms have "\<not> user_exists d (user_id_in schedule)"
    by (simp add: user_exists_iff)
  then show ?thesis by (rule create_user_missing)
qed

theorem C7_create_unknown_user_witness:
  "\<not> (\<exists>u \<in> set (users example_store). id_user u = user_id_in (example_request 7 (jan 5) (jan 10)))
   \<and> create_oncall_schedule (example_request 7 (jan 5) (jan 10)) example_admin (jan 1)
        example_store =
       (Inl (HTTPException 404 ''User not found''), example_store)"
proof -
  have h: "\<forall>u \<in> set (users example_store).
             id_user u \<noteq> user_id_in (example_request 7 (jan 5) (jan 10))"
    by (simp add: example_store_def example_request_def example_admin_def example_engineer_def)
  from C7_create_unknown_user_is_rejected_first [OF h, of example_admin "jan 1"] h
  show ?thesis by blast
qed



text \<open>
  C9. After a successful \<open>delete_oncall_schedule\<close> the stored schedules are the former
  ones without those of the deleted id, each as it was and in the same order, and the
  table of users is as it was; where the primary key holds, exactly one row has gone.
\<close>

theorem C9_delete_leaves_other_schedules:
  assumes "fst (delete_oncall_schedule sid cu d) = Inr msg"
  shows "oncall_schedules (snd (delete_oncall_schedule sid cu d)) =
           filter (\<lambda>s. id_sched s \<noteq> sid) (oncall_schedules d)
         \<and> (\<forall>s. s \<in> set (oncall_schedules (snd (delete_oncall_schedule sid cu d)))
                \<longleftrightarrow> s \<in> set (oncall_schedules d) \<and> id_sched s \<noteq> sid)
         \<and> users (snd (delete_oncall_schedule sid cu d)) = users d
         \<and> (pk_ok d \<longrightarrow>
              length (oncall_schedules (snd (delete_oncall_schedule sid cu d))) + 1 =
                length (oncall_schedules d))"
proof -
  have found: "\<exists>s \<in> set (oncall_schedules d). id_sched s = sid"
  proof (rule ccontr)
    assume "\<not> (\<exists>s \<in> set (oncall_schedules d). id_sched s = sid)"
    then have "\<forall>s \<in> set (oncall_schedules d). id_sched s \<noteq> sid" by simp
    then have "fst (delete_oncall_schedule sid cu d) = Inl (HTTPException 404 ''Schedule not found'')"
      by (simp add: delete_missing)
    with assms show False by simp
  qed
  then have eq: "delete_oncall_schedule sid cu d =
           (Inr ''Schedule deleted successfully'',
            d\<lparr> oncall_schedules := filter (\<lambda>s. id_sched s \<noteq> sid) (oncall_schedules d) \<rparr>)"
    by (rule delete_found)
  have len: "pk_ok d \<longrightarrow>
      length (filter (\<lambda>s. id_sched s \<noteq> sid) (oncall_schedules d)) + 1 =
        length (oncall_schedules d)"
    using found filter_out_key_length [of id_sched "oncall_schedules d" sid]
    by (simp add: pk_ok_def)
  show ?thesis unfolding eq using len by simp
qed

theorem C9_delete_frame_witness:
  "fst (delete_oncall_schedule 2 example_admin
          (example_store\<lparr> oncall_schedules :=
             [example_row 1 1 (jan 1) (jan 8), example_row 2 2 (jan 5) (jan 10),
              example_row 3 1 (jan 8) (jan 10)], oncall_schedules_id_seq := 4 \<rparr>)) = Inr ''Schedule deleted successfully''
   \<and> pk_ok (example_store\<lparr> oncall_schedules :=
             [example_row 1 1 (jan 1) (jan 8), example_row 2 2 (jan 5) (jan 10),
              example_row 3 1 (jan 8) (jan 10)], oncall_schedules_id_seq := 4 \<rparr>)
   \<and> oncall_schedules (snd (delete_oncall_schedule 2 example_admin
          (example_store\<lparr> oncall_schedules :=
             [example_row 1 1 (jan 1) (jan 8), example_row 2 2 (jan 5) (jan 10),
              example_row 3 1 (jan 8) (jan 10)], oncall_schedules_id_seq := 4 \<rparr>))) =
       [example_row 1 1 (jan 1) (jan 8), example_row 3 1 (jan 8) (jan 10)]
   \<and> users (snd (delete_oncall_schedule 2 example_admin
          (example_store\<lparr> oncall_schedules :=
             [example_row 1 1 (jan 1) (jan 8), example_row 2 2 (jan 5) (jan 10),
              example_row 3 1 (jan 8) (jan 10)], oncall_schedules_id_seq := 4 \<rparr>))) = [example_admin, example_engineer]"
proof -
  have h: "fst (delete_oncall_schedule 2 example_admin
          (example_store\<lparr> oncall_schedules :=
             [example_row 1 1 (jan 1) (jan 8), example_row 2 2 (jan 5) (jan 10),
              example_row 3 1 (jan 8) (jan 10)], oncall_schedules_id_seq := 4 \<rparr>)) = Inr ''Schedule deleted successfully''"
    by (simp add: delete_oncall_schedule_def query_first_def example_row_def)
  have pk: "pk_ok (example_store\<lparr> oncall_schedules :=
             [example_row 1 1 (jan 1) (jan 8), example_row 2 2 (jan 5) (jan 10),
              example_row 3 1 (jan 8) (jan 10)], oncall_schedules_id_seq := 4 \<rparr>)"
    by (simp add: pk_ok_def example_row_def)
  from C9_delete_leaves_other_schedules [OF h]
  have "oncall_schedules (snd (delete_oncall_schedule 2 example_admin
          (example_store\<lparr> oncall_schedules :=
             [example_row 1 1 (jan 1) (jan 8), example_row 2 2 (jan 5) (jan 10),
              example_row 3 1 (jan 8) (jan 10)], oncall_schedules_id_seq := 4 \<rparr>))) =
       [example_row 1 1 (jan 1) (jan 8), example_row 3 1 (jan 8) (jan 10)]
     \<and> users (snd (delete_oncall_schedule 2 example_admin
          (example_store\<lparr> oncall_schedules :=
             [example_row 1 1 (jan 1) (jan 8), example_row 2 2 (jan 5) (jan 10),
              example_row 3 1 (jan 8) (jan 10)], oncall_schedules_id_seq := 4 \<rparr>))) = [example_admin, example_engineer]"
    by (simp add: example_row_def example_store_def)
  with h pk show ?thesis by blast
qed

text \<open>
  C10 (as it is stated: a create request for an existing user that starts
  exactly where a stored schedule of that user ends, and overlaps no other schedule of
  the user, passes the overlap check and succeeds). In the example store user 1 is on
  call from 1 to 8 January; the request for user 1 from 8 to 10 January whose notes hold
  a NUL character meets every condition and passes the overlap check, and the commit
  raises \<open>ValueError\<close>: nothing is stored.
\<close>

theorem C10_abutting_interval_with_nul_notes_fails:
  "example_row 1 1 (jan 1) (jan 8) \<in> set (oncall_schedules example_store)
   \<and> user_id (example_row 1 1 (jan 1) (jan 8)) = user_id_in (example_request_nul 1 (jan 8) (jan 10))
   \<and> start_date_in (example_request_nul 1 (jan 8) (jan 10)) = end_date (example_row 1 1 (jan 1) (jan 8))
   \<and> (\<exists>u \<in> set (users example_store). id_user u = user_id_in (example_request_nul 1 (jan 8) (jan 10)))
   \<and> \<not> (\<exists>s' \<in> set (oncall_schedules example_store).
           user_id s' = user_id_in (example_request_nul 1 (jan 8) (jan 10))
           \<and> start_date s' < end_date_in (example_request_nul 1 (jan 8) (jan 10))
           \<and> end_date s' > start_date_in (example_request_nul 1 (jan 8) (jan 10)))
   \<and> create_oncall_schedule (example_request_nul 1 (jan 8) (jan 10)) example_admin (jan 1)
        example_store = (Inl ValueError, example_store)"
  by (simp add: create_oncall_schedule_def query_first_def contains_nul_def Let_def
      example_store_def example_request_nul_def example_row_def example_admin_def
      example_engineer_def jan_def)

text \<open>
  C10 (amended). Where the store holds a schedule \<open>S\<close> of an existing user, a create
  request for that user that starts exactly at \<open>end_date S\<close>, overlaps no other stored
  schedule of the user and holds no NUL character in its notes succeeds, whatever its
  end date: \<open>end_date S > start_date\<close> of the request is false, so \<open>S\<close> does not pass
  the filter of the overlap query.
\<close>

theorem C10_abutting_interval_is_accepted:
  assumes "S \<in> set (oncall_schedules d)"
    and "user_id S = user_id_in schedule"
    and "start_date_in schedule = end_date S"
    and "\<exists>u \<in> set (users d). id_user u = user_id_in schedule"
    and "\<forall>s' \<in> set (oncall_schedules d).
           s' \<noteq> S \<and> user_id s' = user_id_in schedule \<longrightarrow>
             \<not> (start_date s' < end_date_in schedule \<and> end_date s' > start_date_in schedule)"
    and "\<not> contains_nul (notes_in schedule)"
  shows "\<not> (start_date S < end_date_in schedule \<and> end_date S > start_date_in schedule)
         \<and> (\<exists>row. create_oncall_schedule schedule cu now d =
             (Inr row,
              d\<lparr> oncall_schedules := oncall_schedules d @ [row],
                 oncall_schedules_id_seq := oncall_schedules_id_seq d + 1 \<rparr>)
           \<and> user_id row = user_id_in schedule
           \<and> start_date row = end_date S
           \<and> end_date row = end_date_in schedule)"
proof -
  from assms(3) have notS: "\<not> (start_date S < end_date_in schedule \<and> end_date S > start_date_in schedule)"
    by simp
  from assms(4) have ue: "user_exists d (user_id_in schedule)"
    by (simp add: user_exists_iff)
  have nc: "\<forall>s' \<in> set (oncall_schedules d). \<not> conflicts schedule s'"
  proof
    fix s' assume s': "s' \<in> set (oncall_schedules d)"
    show "\<not> conflicts schedule s'"
    proof (cases "s' = S")
      case True
      with notS show ?thesis by (simp add: conflicts_def)
    next
      case False
      with s' assms(5) show ?thesis by (auto simp: conflicts_def)
    qed
  qed
  from create_accepted [OF ue nc assms(6), of cu now] assms(3) notS show ?thesis by simp
qed

theorem C10_abutting_interval_witness:
  "example_row 1 1 (jan 1) (jan 8) \<in> set (oncall_schedules example_store)
   \<and> user_id (example_row 1 1 (jan 1) (jan 8)) = user_id_in (example_request 1 (jan 8) (jan 10))
   \<and> start_date_in (example_request 1 (jan 8) (jan 10)) = end_date (example_row 1 1 (jan 1) (jan 8))
   \<and> (\<exists>u \<in> set (users example_store). id_user u = user_id_in (example_request 1 (jan 8) (jan 10)))
   \<and> \<not> contains_nul (notes_in (example_request 1 (jan 8) (jan 10)))
   \<and> (\<exists>row. create_oncall_schedule (example_request 1 (jan 8) (jan 10)) example_admin (jan 1)
               example_store =
             (Inr row,
              example_store\<lparr> oncall_schedules := oncall_schedules example_store @ [row],
                 oncall_schedules_id_seq := oncall_schedules_id_seq example_store + 1 \<rparr>)
           \<and> user_id row = 1 \<and> start_date row = jan 8 \<and> end_date row = jan 10)"
proof -
  have h1: "example_row 1 1 (jan 1) (jan 8) \<in> set (oncall_schedules example_store)"
    by (simp add: example_store_def)
  have h2: "user_id (example_row 1 1 (jan 1) (jan 8)) = user_id_in (example_request 1 (jan 8) (jan 10))"
    by (simp add: example_row_def example_request_def)
  have h3: "start_date_in (example_request 1 (jan 8) (jan 10)) = end_date (example_row 1 1 (jan 1) (jan 8))"
    by (simp add: example_row_def example_request_def)
  have h4: "\<exists>u \<in> set (users example_store). id_user u = user_id_in (example_request 1 (jan 8) (jan 10))"
    by (simp add: example_store_def example_request_def example_admin_def example_engineer_def)
  have h5: "\<forall>s' \<in> set (oncall_schedules example_store).
           s' \<noteq> example_row 1 1 (jan 1) (jan 8)
           \<and> user_id s' = user_id_in (example_request 1 (jan 8) (jan 10)) \<longrightarrow>
             \<not> (start_date s' < end_date_in (example_request 1 (jan 8) (jan 10))
                \<and> end_date s' > start_date_in (example_request 1 (jan 8) (jan 10)))"
    by (simp add: example_store_def)
  have h6: "\<not> contains_nul (notes_in (example_request 1 (jan 8) (jan 10)))"
    by (simp add: example_request_def contains_nul_def)
  from C10_abutting_interval_is_accepted [OF h1 h2 h3 h4 h5 h6, of example_admin "jan 1"]
  have "\<exists>row. create_oncall_schedule (example_request 1 (jan 8) (jan 10)) example_admin (jan 1)
               example_store =
             (Inr row,
              example_store\<lparr> oncall_schedules := oncall_schedules example_store @ [row],
                 oncall_schedules_id_seq := oncall_schedules_id_seq example_store + 1 \<rparr>)
           \<and> user_id row = 1 \<and> start_date row = jan 8 \<and> end_date row = jan 10"
    by (auto simp: example_request_def example_row_def)
  with h1 h2 h3 h4 h6 show ?thesis by blast
qed

end
